theory Spec2Isabelle
  imports Complex_Main "HOL-Library.Sublist" "HOL-Library.Word"
begin

section \<open>ROL::NewtonKrylovStep (ROL\_NewtonKrylovStep.hpp)\<close>

text \<open>
  The step is a class template over the scalar type \<open>Real\<close>; it works on abstract
  collaborators (\<open>Vector\<close>, \<open>Objective\<close>, \<open>Krylov\<close>, \<open>Secant\<close>) whose
  implementations are not part of the header. The embedding keeps them abstract:
  \<open>'v\<close> are vector contents, \<open>'r\<close> the scalar type \<open>Real\<close>, \<open>'o\<close>, \<open>'k\<close>
  and \<open>'s\<close> the internal states of the objective, the Krylov solver and the secant
  object, and every virtual member function the header calls is a field of the record
  \<open>collab\<close> below.

  Vectors are objects that are passed by reference and changed in place, so they live in a
  store from addresses to contents; a \<open>Vector&\<close> parameter or an \<open>RCP<Vector>\<close> member
  is an address. \<open>y.set(x)\<close> copies the content of \<open>x\<close> to \<open>y\<close>. Trailing underscores
  of member names are dropped (\<open>secant_\<close> is \<open>secant\<close>), and the field \<open>value\<close> of
  \<open>AlgorithmState\<close> is written \<open>value'\<close>.
\<close>

type_synonym addr = nat

datatype error = NullReference | InvalidConfiguration

text \<open>The enumerations \<open>EKrylov\<close> and \<open>ESecant\<close> are C enumerations, read as their codes.\<close>

type_synonym EKrylov = nat
type_synonym ESecant = nat

text \<open>
  The entries of the \<open>Teuchos::ParameterList\<close> that the constructors read; an entry
  may be absent.
\<close>

record ParameterList =
  Secant_Use_as_Preconditioner :: "bool option"
  Print_Verbosity :: "int option"
  Krylov_Type :: "string option"
  Secant_Type :: "string option"

text \<open>
  \<open>StepState\<close> and \<open>AlgorithmState\<close>, with the members the header uses. The counters
  \<open>iter\<close>, \<open>nfval\<close> and \<open>ngrad\<close> are C++ \<open>int\<close> members that the step increments:
  they are 32-bit words, read as signed numbers by \<open>sint\<close>, and an increment past
  \<open>2^31 - 1\<close> wraps around to \<open>-2^31\<close>. The \<open>int\<close> members of the step itself
  (\<open>iterKrylov_\<close>, \<open>flagKrylov_\<close>, \<open>verbosity_\<close>) are only assigned and compared, and
  are read as integers.
\<close>

record StepState =
  gradientVec :: addr
  descentVec :: addr

record 'r AlgorithmState =
  iter :: "32 word"
  value' :: 'r
  gnorm :: 'r
  snorm :: 'r
  nfval :: "32 word"
  ngrad :: "32 word"
  iterateVec :: addr

text \<open>
  What the base class \<open>Step\<close> and the caller own: the step state (\<open>Step::state_\<close>), the
  algorithm state, the vector store with its next unused address, and the objective.
\<close>

record ('v, 'r, 'o) ctx =
  state :: StepState
  algo_state :: "'r AlgorithmState"
  store :: "addr \<Rightarrow> 'v"
  fresh :: addr
  obj :: 'o

text \<open>The private members of \<open>NewtonKrylovStep\<close>; an \<open>RCP\<close> that may be null is an option.\<close>

record ('k, 's) NewtonKrylovStep =
  secant :: "'s option"
  krylov :: "'k option"
  ekv :: EKrylov
  esec :: ESecant
  gp :: "addr option"
  iterKrylov :: int
  flagKrylov :: int
  verbosity :: int
  useSecantPrecond :: bool

text \<open>
  The linear operators handed to the Krylov solver: the nested classes \<open>HessianNK\<close> and
  \<open>PrecondNK\<close> with their members \<open>obj_\<close> and \<open>x_\<close> (the content of the vector that
  \<open>x_\<close> points to while the solver runs), and the secant object used as an operator.
\<close>

datatype ('o, 'v, 's) LinearOperator =
  HessianNK 'o 'v
| PrecondNK 'o 'v
| SecantOperator 's

text \<open>
  The collaborators. A member function with an output vector returns the new content; a
  tolerance passed as \<open>Real&\<close> is returned with the result. The derivative oracles of the
  objective read the objective, \<open>Objective::update\<close> changes it. \<open>Vector_axpy E a x y\<close>
  is the content of \<open>y\<close> after \<open>y.axpy(a,x)\<close>. \<open>Krylov_run E k s A b M iter flag\<close> is
  \<open>k.run(s,A,b,M,iter,flag)\<close>: it returns the content of \<open>s\<close>, \<open>iter\<close>, \<open>flag\<close> and the
  solver after the call. \<open>sqrt_ROL_EPSILON\<close> is \<open>std::sqrt(ROL_EPSILON<Real>())\<close>,
  \<open>scientific\<close> is the text of a \<open>Real\<close> written to a stream under
  \<open>std::scientific << std::setprecision(6)\<close>.
\<close>

record ('v, 'r, 'o, 'k, 's) collab =
  Vector_scale :: "'r \<Rightarrow> 'v \<Rightarrow> 'v"
  Vector_axpy :: "'r \<Rightarrow> 'v \<Rightarrow> 'v \<Rightarrow> 'v"
  Vector_norm :: "'v \<Rightarrow> 'r"
  Vector_dual :: "'v \<Rightarrow> 'v"
  Vector_clone :: "'v \<Rightarrow> 'v"
  Objective_update :: "'v \<Rightarrow> bool \<Rightarrow> 32 word \<Rightarrow> 'o \<Rightarrow> 'o"
  Objective_value :: "'o \<Rightarrow> 'v \<Rightarrow> 'r \<Rightarrow> 'r \<times> 'r"
  Objective_gradient :: "'o \<Rightarrow> 'v \<Rightarrow> 'r \<Rightarrow> 'v \<times> 'r"
  Objective_hessVec :: "'o \<Rightarrow> 'v \<Rightarrow> 'v \<Rightarrow> 'r \<Rightarrow> 'v \<times> 'r"
  Objective_precond :: "'o \<Rightarrow> 'v \<Rightarrow> 'v \<Rightarrow> 'r \<Rightarrow> 'v \<times> 'r"
  Krylov_run :: "'k \<Rightarrow> 'v \<Rightarrow> ('o, 'v, 's) LinearOperator \<Rightarrow> 'v
    \<Rightarrow> ('o, 'v, 's) LinearOperator \<Rightarrow> int \<Rightarrow> int \<Rightarrow> 'v \<times> int \<times> int \<times> 'k"
  Secant_updateStorage :: "'v \<Rightarrow> 'v \<Rightarrow> 'v \<Rightarrow> 'v \<Rightarrow> 'r \<Rightarrow> 32 word \<Rightarrow> 's \<Rightarrow> 's"
  Step_initialize :: "addr \<Rightarrow> addr \<Rightarrow> addr \<Rightarrow> ('v, 'r, 'o) ctx
    \<Rightarrow> error + ('v, 'r, 'o) ctx"
  KrylovFactory :: "ParameterList \<Rightarrow> error + 'k option"
  SecantFactory :: "ParameterList \<Rightarrow> error + 's option"
  StringToEKrylov :: "string \<Rightarrow> EKrylov"
  StringToESecant :: "string \<Rightarrow> ESecant"
  KRYLOV_USERDEFINED :: EKrylov
  SECANT_USERDEFINED :: ESecant
  EKrylovToString :: "EKrylov \<Rightarrow> string"
  ESecantToString :: "ESecant \<Rightarrow> string"
  EDescentToString_NEWTONKRYLOV :: string
  sqrt_ROL_EPSILON :: 'r
  scientific :: "'r \<Rightarrow> string"

subsection \<open>Errors\<close>

definition bind :: "error + 'a \<Rightarrow> ('a \<Rightarrow> error + 'b) \<Rightarrow> error + 'b" where
  "bind m f = (case m of Inl e \<Rightarrow> Inl e | Inr a \<Rightarrow> f a)"

text \<open>Dereferencing an \<open>RCP\<close>: a null one raises.\<close>

definition deref :: "'a option \<Rightarrow> error + 'a" where
  "deref p = (case p of None \<Rightarrow> Inl NullReference | Some a \<Rightarrow> Inr a)"

subsection \<open>The operator wrappers\<close>

definition HessianNK_apply ::
  "('v, 'r, 'o, 'k, 's) collab \<Rightarrow> 'o \<Rightarrow> 'v \<Rightarrow> 'v \<Rightarrow> 'r \<Rightarrow> 'v \<times> 'r" where
  "HessianNK_apply E ob xp v tol = Objective_hessVec E ob v xp tol"

definition PrecondNK_apply ::
  "('v, 'r, 'o, 'k, 's) collab \<Rightarrow> 'o \<Rightarrow> 'v \<Rightarrow> 'v \<Rightarrow> 'r \<Rightarrow> 'v \<times> 'r" where
  "PrecondNK_apply E ob xp v tol = (Vector_dual E v, tol)"

definition PrecondNK_applyInverse ::
  "('v, 'r, 'o, 'k, 's) collab \<Rightarrow> 'o \<Rightarrow> 'v \<Rightarrow> 'v \<Rightarrow> 'r \<Rightarrow> 'v \<times> 'r" where
  "PrecondNK_applyInverse E ob xp v tol = Objective_precond E ob v xp tol"

subsection \<open>compute\<close>

text \<open>The two operators that \<open>compute\<close> builds; \<open>precond\<close> is an \<open>RCP\<close> and may be null.\<close>

definition compute_hessian :: "('v, 'r, 'o) ctx \<Rightarrow> ('o, 'v, 's) LinearOperator" where
  "compute_hessian cx = HessianNK (obj cx) (store cx (iterateVec (algo_state cx)))"

definition compute_precond ::
  "('k, 's) NewtonKrylovStep \<Rightarrow> ('v, 'r, 'o) ctx \<Rightarrow> ('o, 'v, 's) LinearOperator option" where
  "compute_precond nk cx =
     (if useSecantPrecond nk then map_option SecantOperator (secant nk)
      else Some (PrecondNK (obj cx) (store cx (iterateVec (algo_state cx)))))"

text \<open>
  The call of the solver, with \<open>flagKrylov_\<close> reset to 0 before it. The solver reads its
  arguments and writes \<open>s\<close>, \<open>iterKrylov_\<close> and \<open>flagKrylov_\<close>; the operators see the
  iterate as it is when the solver is called (\<open>s\<close> is the caller's step vector, not the
  iterate of the algorithm state).
\<close>

definition compute_run ::
  "('v, 'r, 'o, 'k, 's) collab \<Rightarrow> addr \<Rightarrow> ('k, 's) NewtonKrylovStep \<Rightarrow> ('v, 'r, 'o) ctx
    \<Rightarrow> error + ('v \<times> int \<times> int \<times> 'k)" where
  "compute_run E s nk cx =
     bind (deref (krylov nk)) (\<lambda>k.
     bind (deref (compute_precond nk cx)) (\<lambda>precond.
       Inr (Krylov_run E k (store cx s) (compute_hessian cx)
              (store cx (gradientVec (state cx))) precond (iterKrylov nk) 0)))"

definition compute ::
  "('v, 'r::{one,uminus}, 'o, 'k, 's) collab \<Rightarrow> addr \<Rightarrow> addr
    \<Rightarrow> ('k, 's) NewtonKrylovStep \<times> ('v, 'r, 'o) ctx
    \<Rightarrow> error + ('k, 's) NewtonKrylovStep \<times> ('v, 'r, 'o) ctx" where
  "compute E s x w =
     (case w of (nk, cx) \<Rightarrow>
      bind (compute_run E s nk cx) (\<lambda>(d, it, fl, k').
        let st1 = (store cx)(s := d);
            st2 = (if fl = 2 \<and> it \<le> 1
                   then st1(s := Vector_dual E (st1 (gradientVec (state cx))))
                   else st1);
            st3 = st2(s := Vector_scale E (- 1) (st2 s))
        in Inr (nk\<lparr>krylov := Some k', iterKrylov := it, flagKrylov := fl\<rparr>,
                cx\<lparr>store := st3\<rparr>)))"

subsection \<open>The constructors\<close>

text \<open>
  \<open>get(name, default)\<close> on a parameter list: the entry, or the default when the entry is
  absent.
\<close>

definition get_or :: "'a \<Rightarrow> 'a option \<Rightarrow> 'a" where
  "get_or d e = (case e of None \<Rightarrow> d | Some a \<Rightarrow> a)"

text \<open>
  The standard constructor. The factories \<open>KrylovFactory\<close> and \<open>SecantFactory\<close> may
  raise, and then so does the constructor.
\<close>

definition NewtonKrylovStep_parlist ::
  "('v, 'r, 'o, 'k, 's) collab \<Rightarrow> ParameterList \<Rightarrow> error + ('k, 's) NewtonKrylovStep" where
  "NewtonKrylovStep_parlist E parlist =
     (let usp = get_or False (Secant_Use_as_Preconditioner parlist);
          verb = get_or 0 (Print_Verbosity parlist);
          ek = StringToEKrylov E (get_or ''Conjugate Gradients'' (Krylov_Type parlist))
      in bind (KrylovFactory E parlist) (\<lambda>k.
         let es = StringToESecant E (get_or ''Limited-Memory BFGS'' (Secant_Type parlist))
         in bind (if usp then SecantFactory E parlist else Inr None) (\<lambda>sec.
              Inr \<lparr>secant = sec, krylov = k, ekv = ek, esec = es, gp = None,
                   iterKrylov = 0, flagKrylov = 0, verbosity = verb,
                   useSecantPrecond = usp\<rparr>)))"

text \<open>The constructor with user-defined Krylov and secant objects (either may be null).\<close>

definition NewtonKrylovStep_user ::
  "('v, 'r, 'o, 'k, 's) collab \<Rightarrow> ParameterList \<Rightarrow> 'k option \<Rightarrow> 's option
    \<Rightarrow> error + ('k, 's) NewtonKrylovStep" where
  "NewtonKrylovStep_user E parlist krylov0 secant0 =
     (let usp = get_or False (Secant_Use_as_Preconditioner parlist);
          verb = get_or 0 (Print_Verbosity parlist)
      in bind (if usp \<and> secant0 = None
               then bind (SecantFactory E parlist) (\<lambda>sec.
                      Inr (StringToESecant E
                             (get_or ''Limited-Memory BFGS'' (Secant_Type parlist)), sec))
               else Inr (SECANT_USERDEFINED E, secant0)) (\<lambda>(es, sec).
         bind (if krylov0 = None
               then bind (KrylovFactory E parlist) (\<lambda>k.
                      Inr (StringToEKrylov E
                             (get_or ''Conjugate Gradients'' (Krylov_Type parlist)), k))
               else Inr (KRYLOV_USERDEFINED E, krylov0)) (\<lambda>(ek, k).
           Inr \<lparr>secant = sec, krylov = k, ekv = ek, esec = es, gp = None,
                iterKrylov = 0, flagKrylov = 0, verbosity = verb,
                useSecantPrecond = usp\<rparr>)))"

subsection \<open>initialize\<close>

text \<open>
  \<open>Step::initialize\<close> of the base class cannot reach the private members of the step;
  \<open>g.clone()\<close> is a new vector object, at the next unused address.
\<close>

definition initialize ::
  "('v, 'r, 'o, 'k, 's) collab \<Rightarrow> addr \<Rightarrow> addr \<Rightarrow> addr
    \<Rightarrow> ('k, 's) NewtonKrylovStep \<times> ('v, 'r, 'o) ctx
    \<Rightarrow> error + ('k, 's) NewtonKrylovStep \<times> ('v, 'r, 'o) ctx" where
  "initialize E x s g w =
     (case w of (nk, cx) \<Rightarrow>
      bind (Step_initialize E x s g cx) (\<lambda>cx1.
        if useSecantPrecond nk
        then Inr (nk\<lparr>gp := Some (fresh cx1)\<rparr>,
                  cx1\<lparr>store := (store cx1)(fresh cx1 := Vector_clone E (store cx1 g)),
                      fresh := fresh cx1 + 1\<rparr>)
        else Inr (nk, cx1)))"

subsection \<open>update\<close>

definition update ::
  "('v, 'r::{one,uminus}, 'o, 'k, 's) collab \<Rightarrow> addr \<Rightarrow> addr
    \<Rightarrow> ('k, 's) NewtonKrylovStep \<times> ('v, 'r, 'o) ctx
    \<Rightarrow> error + ('k, 's) NewtonKrylovStep \<times> ('v, 'r, 'o) ctx" where
  "update E x s w =
     (case w of (nk, cx) \<Rightarrow>
      let tol = sqrt_ROL_EPSILON E;
          step_state = state cx;
          as1 = (algo_state cx)\<lparr>iter := iter (algo_state cx) + 1\<rparr>;
          st1 = (store cx)(x := Vector_axpy E 1 (store cx s) (store cx x));
          st2 = st1(descentVec step_state := st1 s);
          as2 = as1\<lparr>snorm := Vector_norm E (st2 s)\<rparr>
      in bind (if useSecantPrecond nk
               then bind (deref (gp nk)) (\<lambda>p. Inr (st2(p := st2 (gradientVec step_state))))
               else Inr st2) (\<lambda>st3.
         let ob1 = Objective_update E (st3 x) True (iter as2) (obj cx);
             (val, tol1) = Objective_value E ob1 (st3 x) tol;
             as3 = as2\<lparr>value' := val\<rparr>;
             (g, tol2) = Objective_gradient E ob1 (st3 x) tol1;
             st4 = st3(gradientVec step_state := g);
             as4 = as3\<lparr>ngrad := ngrad as3 + 1\<rparr>
         in bind (if useSecantPrecond nk
                  then bind (deref (secant nk)) (\<lambda>sec.
                       bind (deref (gp nk)) (\<lambda>p.
                         Inr (Some (Secant_updateStorage E (st4 x)
                                      (st4 (gradientVec step_state)) (st4 p) (st4 s)
                                      (snorm as4) (iter as4 + 1) sec))))
                  else Inr (secant nk)) (\<lambda>sec'.
            let st5 = st4(iterateVec as4 := st4 x);
                as5 = as4\<lparr>gnorm := Vector_norm E (st5 (gradientVec step_state))\<rparr>
            in Inr (nk\<lparr>secant := sec'\<rparr>,
                    cx\<lparr>algo_state := as5, store := st5, obj := ob1\<rparr>))))"

subsection \<open>Calls in sequence\<close>

text \<open>
  The driver calls \<open>initialize\<close>, \<open>compute\<close> and \<open>update\<close> one after the other on the
  same step; a call that raises ends the run.
\<close>

datatype call = Initialize addr addr addr | Compute addr addr | Update addr addr

fun do_call ::
  "('v, 'r::{one,uminus}, 'o, 'k, 's) collab \<Rightarrow> call
    \<Rightarrow> ('k, 's) NewtonKrylovStep \<times> ('v, 'r, 'o) ctx
    \<Rightarrow> error + ('k, 's) NewtonKrylovStep \<times> ('v, 'r, 'o) ctx" where
  "do_call E (Initialize x s g) w = initialize E x s g w"
| "do_call E (Compute s x) w = compute E s x w"
| "do_call E (Update x s) w = update E x s w"

fun run_calls ::
  "('v, 'r::{one,uminus}, 'o, 'k, 's) collab \<Rightarrow> call list
    \<Rightarrow> ('k, 's) NewtonKrylovStep \<times> ('v, 'r, 'o) ctx
    \<Rightarrow> error + ('k, 's) NewtonKrylovStep \<times> ('v, 'r, 'o) ctx" where
  "run_calls E [] w = Inr w"
| "run_calls E (c # cs) w = bind (do_call E c w) (run_calls E cs)"

text \<open>Which call a call is.\<close>

fun is_Initialize :: "call \<Rightarrow> bool" where
  "is_Initialize (Initialize x s g) = True"
| "is_Initialize c = False"

fun is_Update :: "call \<Rightarrow> bool" where
  "is_Update (Update x s) = True"
| "is_Update c = False"

subsection \<open>Status output\<close>

text \<open>
  An \<open>int\<close> written to the stream, in decimal; \<open>std::setw(n) << std::left\<close> pads the
  next item with blanks on the right up to width \<open>n\<close>.
\<close>

fun digits :: "nat \<Rightarrow> string" where
  "digits n = (if n < 10 then [''0123456789'' ! n]
               else digits (n div 10) @ [''0123456789'' ! (n mod 10)])"

declare digits.simps [simp del]

definition show_int :: "int \<Rightarrow> string" where
  "show_int i = (if i < 0 then CHR ''-'' # digits (nat (- i)) else digits (nat i))"

definition setw_left :: "nat \<Rightarrow> string \<Rightarrow> string" where
  "setw_left n str = str @ replicate (n - length str) CHR '' ''"

definition printHeader :: "('v, 'r, 'o, 'k, 's) collab \<Rightarrow> ('k, 's) NewtonKrylovStep \<Rightarrow> string" where
  "printHeader E nk =
     (if verbosity nk > 0
      then replicate 109 CHR ''-'' @ ''\<newline>''
         @ EDescentToString_NEWTONKRYLOV E
         @ '' status output definitions\<newline>\<newline>''
         @ ''  iter     - Number of iterates (steps taken) \<newline>''
         @ ''  value    - Objective function value \<newline>''
         @ ''  gnorm    - Norm of the gradient\<newline>''
         @ ''  snorm    - Norm of the step (update to optimization vector)\<newline>''
         @ ''  #fval    - Cumulative number of times the objective function was evaluated\<newline>''
         @ ''  #grad    - Number of times the gradient was computed\<newline>''
         @ ''  iterCG   - Number of Krylov iterations used to compute search direction\<newline>''
         @ ''  flagCG   - Krylov solver flag'' @ ''\<newline>''
         @ replicate 109 CHR ''-'' @ ''\<newline>''
      else [])
     @ ''  ''
     @ setw_left 6 ''iter''
     @ setw_left 15 ''value''
     @ setw_left 15 ''gnorm''
     @ setw_left 15 ''snorm''
     @ setw_left 10 ''#fval''
     @ setw_left 10 ''#grad''
     @ setw_left 10 ''iterCG''
     @ setw_left 10 ''flagCG''
     @ ''\<newline>''"

definition printName :: "('v, 'r, 'o, 'k, 's) collab \<Rightarrow> ('k, 's) NewtonKrylovStep \<Rightarrow> string" where
  "printName E nk =
     ''\<newline>'' @ EDescentToString_NEWTONKRYLOV E
     @ '' using '' @ EKrylovToString E (ekv nk)
     @ (if useSecantPrecond nk
        then '' with '' @ ESecantToString E (esec nk) @ '' preconditioning''
        else [])
     @ ''\<newline>''"

definition print ::
  "('v, 'r, 'o, 'k, 's) collab \<Rightarrow> ('k, 's) NewtonKrylovStep \<Rightarrow> 'r AlgorithmState \<Rightarrow> bool
    \<Rightarrow> string" where
  "print E nk algo print_header =
     (if iter algo = 0 then printName E nk else [])
     @ (if print_header then printHeader E nk else [])
     @ (if iter algo = 0
        then ''  ''
           @ setw_left 6 (show_int (sint (iter algo)))
           @ setw_left 15 (scientific E (value' algo))
           @ setw_left 15 (scientific E (gnorm algo))
           @ ''\<newline>''
        else ''  ''
           @ setw_left 6 (show_int (sint (iter algo)))
           @ setw_left 15 (scientific E (value' algo))
           @ setw_left 15 (scientific E (gnorm algo))
           @ setw_left 15 (scientific E (snorm algo))
           @ setw_left 10 (show_int (sint (nfval algo)))
           @ setw_left 10 (show_int (sint (ngrad algo)))
           @ setw_left 10 (show_int (iterKrylov nk))
           @ setw_left 10 (show_int (flagKrylov nk))
           @ ''\<newline>'')"

subsection \<open>An example scenario\<close>

text \<open>
  The scenario of the specification, for evaluating the operations on concrete inputs: the
  objective \<open>f(x) = ||x||^2 / 2\<close> on vectors of reals (Hessian the identity, gradient
  \<open>x\<close>), starting at \<open>(2, 0)\<close>. The Krylov solver of the example reports the direction,
  iteration count and flag it was built with (the factory builds the one that solves
  the Newton system of the example exactly), and the secant object counts its updates. The vector objects are \<open>x\<close> at 10, \<open>s\<close> at 11, the iterate at
  12, the gradient at 13 and the descent vector at 14.
\<close>

definition example_collab :: "(real list, real, unit, real list \<times> int \<times> int, nat) collab" where
  "example_collab =
     \<lparr>Vector_scale = (\<lambda>a v. map (\<lambda>vi. a * vi) v),
      Vector_axpy = (\<lambda>a x y. map2 (\<lambda>xi yi. yi + a * xi) x y),
      Vector_norm = (\<lambda>v. sqrt (sum_list (map (\<lambda>vi. vi * vi) v))),
      Vector_dual = (\<lambda>v. v),
      Vector_clone = (\<lambda>v. map (\<lambda>vi. 0) v),
      Objective_update = (\<lambda>x flag it ob. ob),
      Objective_value = (\<lambda>ob x tol. (sum_list (map (\<lambda>xi. xi * xi) x) / 2, tol)),
      Objective_gradient = (\<lambda>ob x tol. (x, tol)),
      Objective_hessVec = (\<lambda>ob v x tol. (v, tol)),
      Objective_precond = (\<lambda>ob v x tol. (v, tol)),
      Krylov_run = (\<lambda>k s A b M it fl. (fst k, fst (snd k), snd (snd k), k)),
      Secant_updateStorage = (\<lambda>x g gp s sn it n. n + 1),
      Step_initialize = (\<lambda>x s g cx. Inr cx),
      KrylovFactory = (\<lambda>pl. Inr (Some ([2, 0], 1, 0))),
      SecantFactory = (\<lambda>pl. Inr (Some 0)),
      StringToEKrylov = (\<lambda>str. 0),
      StringToESecant = (\<lambda>str. 0),
      KRYLOV_USERDEFINED = 1,
      SECANT_USERDEFINED = 1,
      EKrylovToString = (\<lambda>e. if e = 0 then ''Conjugate Gradients'' else ''User Defined''),
      ESecantToString = (\<lambda>e. if e = 0 then ''Limited-Memory BFGS'' else ''User Defined''),
      EDescentToString_NEWTONKRYLOV = ''Newton-Krylov'',
      sqrt_ROL_EPSILON = 1 / 2 ^ 26,
      scientific = (\<lambda>r. if r = 0 then ''0.000000e+00'' else ''2.000000e+00'')\<rparr>"

definition example_ctx :: "(real list, real, unit) ctx" where
  "example_ctx =
     \<lparr>state = \<lparr>gradientVec = 13, descentVec = 14\<rparr>,
      algo_state = \<lparr>iter = 0, value' = 2, gnorm = 2, snorm = 0, nfval = 0, ngrad = 0,
                    iterateVec = 12\<rparr>,
      store = (\<lambda>a. [])(10 := [2, 0], 11 := [0, 0], 12 := [2, 0], 13 := [2, 0], 14 := [0, 0]),
      fresh = 15,
      obj = ()\<rparr>"

text \<open>A parameter list without entries: every option has its default.\<close>

definition example_parlist :: ParameterList where
  "example_parlist =
     \<lparr>Secant_Use_as_Preconditioner = None, Print_Verbosity = None, Krylov_Type = None,
      Secant_Type = None\<rparr>"

definition example_step :: "real list \<times> int \<times> int \<Rightarrow> (real list \<times> int \<times> int, nat) NewtonKrylovStep" where
  "example_step k =
     \<lparr>secant = None, krylov = Some k, ekv = 1, esec = 1, gp = None, iterKrylov = 0,
      flagKrylov = 0, verbosity = 0, useSecantPrecond = False\<rparr>"

text \<open>The example after \<open>compute\<close> has written the step \<open>(-2, 0)\<close> into \<open>s\<close>.\<close>

definition example_ctx1 :: "(real list, real, unit) ctx" where
  "example_ctx1 = example_ctx\<lparr>store := (store example_ctx)(11 := [- 2, 0])\<rparr>"

section \<open>Properties of compute\<close>

text \<open>
  C1. When the solver returns flag 2 and an iteration count of at most 1, \<open>compute\<close>
  returns, and the step \<open>s\<close> is the dual of the current gradient scaled by \<open>-1\<close>,
  whatever direction \<open>d\<close> the solver wrote into \<open>s\<close>. The gradient vector belongs to the
  step state, \<open>s\<close> to the caller: they are different objects.
\<close>

theorem compute_fallback:
  assumes "compute_run E s nk cx = Inr (d, it, 2, k')"
    and "it \<le> 1"
    and "s \<noteq> gradientVec (state cx)"
  shows "\<exists>nk' cx'. compute E s x (nk, cx) = Inr (nk', cx')
           \<and> store cx' s = Vector_scale E (- 1) (Vector_dual E (store cx (gradientVec (state cx))))
           \<and> store cx' (gradientVec (state cx')) = store cx (gradientVec (state cx))"
  using assms by (simp add: compute_def bind_def)

theorem compute_fallback_witness:
  "compute_run example_collab 11 (example_step ([9, 9], 1, 2)) example_ctx
     = Inr ([9, 9], 1, 2, ([9, 9], 1, 2))
   \<and> (1::int) \<le> 1 \<and> (11::addr) \<noteq> gradientVec (state example_ctx)
   \<and> (\<exists>nk' cx'. compute example_collab 11 10 (example_step ([9, 9], 1, 2), example_ctx) = Inr (nk', cx')
         \<and> store cx' 11 = [- 2, 0])"
proof -
  have run: "compute_run example_collab 11 (example_step ([9, 9], 1, 2)) example_ctx
     = Inr ([9, 9], 1, 2, ([9, 9], 1, 2))"
    by (simp add: compute_run_def compute_precond_def compute_hessian_def bind_def deref_def
        example_collab_def example_step_def example_ctx_def)
  have le: "(1::int) \<le> 1" by simp
  have ne: "(11::addr) \<noteq> gradientVec (state example_ctx)" by (simp add: example_ctx_def)
  from compute_fallback [OF run le ne, of 10]
  show ?thesis using run by (auto simp add: example_collab_def example_ctx_def)
qed

text \<open>
  C2. When the solver returns flag 2 after more than one iteration, the fallback is not
  taken: \<open>compute\<close> returns and the step \<open>s\<close> is the solver's direction \<open>d\<close> scaled by
  \<open>-1\<close>.
\<close>

theorem compute_negative_curvature_after_progress:
  assumes "compute_run E s nk cx = Inr (d, it, 2, k')"
    and "1 < it"
  shows "\<exists>nk' cx'. compute E s x (nk, cx) = Inr (nk', cx')
           \<and> store cx' s = Vector_scale E (- 1) d"
  using assms by (simp add: compute_def bind_def)

theorem compute_negative_curvature_after_progress_witness:
  "compute_run example_collab 11 (example_step ([1, 1], 3, 2)) example_ctx
     = Inr ([1, 1], 3, 2, ([1, 1], 3, 2))
   \<and> (1::int) < 3
   \<and> (\<exists>nk' cx'. compute example_collab 11 10 (example_step ([1, 1], 3, 2), example_ctx) = Inr (nk', cx')
         \<and> store cx' 11 = [- 1, - 1])"
proof -
  have run: "compute_run example_collab 11 (example_step ([1, 1], 3, 2)) example_ctx
     = Inr ([1, 1], 3, 2, ([1, 1], 3, 2))"
    by (simp add: compute_run_def compute_precond_def compute_hessian_def bind_def deref_def
        example_collab_def example_step_def example_ctx_def)
  have lt: "(1::int) < 3" by simp
  from compute_negative_curvature_after_progress [OF run lt, of 10]
  show ?thesis using run by (auto simp add: example_collab_def)
qed

text \<open>
  C3. Whenever the fallback condition does not hold for what the solver returned,
  \<open>compute\<close> returns and the step \<open>s\<close> is the solver's direction \<open>d\<close> scaled by \<open>-1\<close>.
  Scaling the step by \<open>-1\<close> once more gives \<open>d\<close> back for a vector implementation on
  which scaling by \<open>-1\<close> twice is the identity at \<open>d\<close>.
\<close>

theorem compute_descent_sign:
  assumes "compute_run E s nk cx = Inr (d, it, fl, k')"
    and "\<not> (fl = 2 \<and> it \<le> 1)"
    and "Vector_scale E (- 1) (Vector_scale E (- 1) d) = d"
  shows "\<exists>nk' cx'. compute E s x (nk, cx) = Inr (nk', cx')
           \<and> store cx' s = Vector_scale E (- 1) d
           \<and> Vector_scale E (- 1) (store cx' s) = d"
  using assms by (auto simp add: compute_def bind_def)


theorem compute_descent_sign_witness:
  "compute_run example_collab 11 (example_step ([2, 0], 1, 0)) example_ctx
     = Inr ([2, 0], 1, 0, ([2, 0], 1, 0))
   \<and> \<not> ((0::int) = 2 \<and> (1::int) \<le> 1)
   \<and> Vector_scale example_collab (- 1) (Vector_scale example_collab (- 1) [2, 0]) = [2, 0]
   \<and> (\<exists>nk' cx'. compute example_collab 11 10 (example_step ([2, 0], 1, 0), example_ctx) = Inr (nk', cx')
         \<and> store cx' 11 = [- 2, 0]
         \<and> Vector_scale example_collab (- 1) (store cx' 11) = [2, 0])"
proof -
  have run: "compute_run example_collab 11 (example_step ([2, 0], 1, 0)) example_ctx
     = Inr ([2, 0], 1, 0, ([2, 0], 1, 0))"
    by (simp add: compute_run_def compute_precond_def compute_hessian_def bind_def deref_def
        example_collab_def example_step_def example_ctx_def)
  have nf: "\<not> ((0::int) = 2 \<and> (1::int) \<le> 1)" by simp
  have inv: "Vector_scale example_collab (- 1) (Vector_scale example_collab (- 1) [2, 0]) = [2, 0]"
    by (simp add: example_collab_def)
  from compute_descent_sign [OF run nf inv, of 10]
  show ?thesis using run inv by (auto simp add: example_collab_def)
qed

section \<open>Properties of update\<close>

text \<open>
  The counters of the algorithm state across one call and across a run of calls:
  \<open>update\<close> adds one to \<open>iter\<close> and to \<open>ngrad\<close>, \<open>compute\<close> leaves the algorithm
  state alone.
\<close>

lemma update_counters_step:
  assumes "update E x s (nk, cx) = Inr (nk', cx')"
  shows "iter (algo_state cx') = iter (algo_state cx) + 1
       \<and> ngrad (algo_state cx') = ngrad (algo_state cx) + 1
       \<and> nfval (algo_state cx') = nfval (algo_state cx)"
  using assms
  by (auto simp add: update_def bind_def deref_def Let_def split: if_splits option.splits prod.splits)

lemma compute_algo_state:
  assumes "compute E s x (nk, cx) = Inr (nk', cx')"
  shows "algo_state cx' = algo_state cx"
  using assms
  by (auto simp add: compute_def bind_def Let_def split: sum.splits prod.splits if_splits)

lemma run_calls_counters:
  "run_calls E cs (nk, cx) = Inr (nk', cx') \<Longrightarrow> list_all (\<lambda>c. \<not> is_Initialize c) cs \<Longrightarrow>
   iter (algo_state cx') = iter (algo_state cx) + of_nat (length (filter is_Update cs))
   \<and> ngrad (algo_state cx') = ngrad (algo_state cx) + of_nat (length (filter is_Update cs))"
proof (induction cs arbitrary: nk cx)
  case Nil
  then show ?case by simp
next
  case (Cons c cs)
  from Cons.prems(1) obtain nk1 cx1 where
    1: "do_call E c (nk, cx) = Inr (nk1, cx1)" and
    2: "run_calls E cs (nk1, cx1) = Inr (nk', cx')"
    by (auto simp add: bind_def split: sum.splits)
  from Cons.prems(2) have 3: "list_all (\<lambda>c. \<not> is_Initialize c) cs" by simp
  note ih = Cons.IH [OF 2 3]
  show ?case
  proof (cases c)
    case (Initialize x s g)
    with Cons.prems(2) show ?thesis by simp
  next
    case (Compute s x)
    with 1 compute_algo_state [of E s x nk cx nk1 cx1] ih show ?thesis by simp
  next
    case (Update x s)
    with 1 update_counters_step [of E x s nk cx nk1 cx1] ih show ?thesis by simp
  qed
qed

text \<open>
  Without secant preconditioning \<open>update\<close> dereferences nothing that may be null: it
  returns, and so does any number of calls of it.
\<close>

lemma update_returns:
  assumes "\<not> useSecantPrecond nk"
  shows "\<exists>cx'. update E x s (nk, cx) = Inr (nk, cx')"
  using assms by (simp add: update_def bind_def Let_def split_def)

lemma run_updates_return:
  "\<not> useSecantPrecond nk \<Longrightarrow>
   \<exists>cx'. run_calls E (replicate n (Update x s)) (nk, cx) = Inr (nk, cx')"
proof (induction n arbitrary: cx)
  case 0
  then show ?case by simp
next
  case (Suc n)
  from update_returns [OF Suc.prems, of E x s cx] obtain cx1 where
    1: "update E x s (nk, cx) = Inr (nk, cx1)" by blast
  from Suc.IH [OF Suc.prems, of cx1] obtain cx' where
    2: "run_calls E (replicate n (Update x s)) (nk, cx1) = Inr (nk, cx')" by blast
  from 1 2 show ?case by (simp add: bind_def)
qed

lemma replicate_updates:
  "list_all (\<lambda>c. \<not> is_Initialize c) (replicate n (Update x s))
   \<and> length (filter is_Update (replicate n (Update x s))) = n"
  by (induction n) simp_all

text \<open>The call of \<open>update\<close> in the example returns.\<close>

lemma example_update:
  "\<exists>nk' cx'. update example_collab 10 11 (example_step ([2, 0], 1, 0), example_ctx1) = Inr (nk', cx')"
  by (simp add: update_def bind_def deref_def Let_def split_def example_step_def)

text \<open>
  C4. After a call \<open>update(x, s, ...)\<close> that returns, the vector \<open>x\<close> and the iterate of
  the algorithm state both hold the updated point \<open>x + s\<close> (the content of \<open>x\<close> after
  \<open>x.axpy(1.0, s)\<close>), the value of the state is the objective value at that point, the
  gradient vector of the step state is the gradient at that point, and \<open>gnorm\<close> is its
  norm; the objective is the one notified of that point. The vectors of the step state and
  the workspace \<open>gp_\<close> belong to the step and the iterate to the algorithm state: \<open>x\<close> is
  none of the step's vectors, and the iterate is not the gradient vector.
\<close>

theorem update_state_consistent:
  assumes "update E x s (nk, cx) = Inr (nk', cx')"
    and "x \<noteq> gradientVec (state cx)"
    and "x \<noteq> descentVec (state cx)"
    and "gp nk \<noteq> Some x"
    and "iterateVec (algo_state cx) \<noteq> gradientVec (state cx)"
  shows "let xnew = Vector_axpy E 1 (store cx s) (store cx x);
             val = Objective_value E (obj cx') xnew (sqrt_ROL_EPSILON E);
             g = fst (Objective_gradient E (obj cx') xnew (snd val))
         in obj cx' = Objective_update E xnew True (iter (algo_state cx) + 1) (obj cx)
          \<and> store cx' x = xnew
          \<and> store cx' (iterateVec (algo_state cx')) = xnew
          \<and> value' (algo_state cx') = fst val
          \<and> store cx' (gradientVec (state cx')) = g
          \<and> gnorm (algo_state cx') = Vector_norm E g"
  using assms
  by (auto simp add: update_def bind_def deref_def Let_def split: if_splits option.splits prod.splits)

theorem update_state_consistent_witness:
  "\<exists>nk' cx'. update example_collab 10 11 (example_step ([2, 0], 1, 0), example_ctx1) = Inr (nk', cx')
     \<and> 10 \<noteq> gradientVec (state example_ctx1)
     \<and> 10 \<noteq> descentVec (state example_ctx1)
     \<and> gp (example_step ([2, 0], 1, 0)) \<noteq> Some 10
     \<and> iterateVec (algo_state example_ctx1) \<noteq> gradientVec (state example_ctx1)
     \<and> store cx' 10 = [0, 0]
     \<and> store cx' (iterateVec (algo_state cx')) = [0, 0]
     \<and> value' (algo_state cx') = 0
     \<and> store cx' (gradientVec (state cx')) = [0, 0]
     \<and> gnorm (algo_state cx') = 0"
proof -
  obtain nk' cx' where
    u: "update example_collab 10 11 (example_step ([2, 0], 1, 0), example_ctx1) = Inr (nk', cx')"
    using example_update by blast
  have h1: "10 \<noteq> gradientVec (state example_ctx1)"
    and h2: "10 \<noteq> descentVec (state example_ctx1)"
    and h3: "gp (example_step ([2, 0], 1, 0)) \<noteq> Some 10"
    and h4: "iterateVec (algo_state example_ctx1) \<noteq> gradientVec (state example_ctx1)"
    by (simp_all add: example_ctx1_def example_ctx_def example_step_def)
  have x: "Vector_axpy example_collab 1 (store example_ctx1 11) (store example_ctx1 10) = [0, 0]"
    by (simp add: example_collab_def example_ctx1_def example_ctx_def)
  have v: "fst (Objective_value example_collab ob [0, 0] t) = 0" for ob t
    by (simp add: example_collab_def)
  have g: "fst (Objective_gradient example_collab ob [0, 0] t) = [0, 0]" for ob t
    by (simp add: example_collab_def)
  have n: "Vector_norm example_collab [0, 0] = 0"
    by (simp add: example_collab_def)
  from update_state_consistent [OF u h1 h2 h3 h4]
  show ?thesis using u h1 h2 h3 h4
    by (simp add: Let_def x v g n)
qed

text \<open>
  C5, as the claim states it, fails for large \<open>n\<close>: the counters are C++ \<open>int\<close>, and
  after \<open>2^31\<close> calls of \<open>update\<close> from 0 both hold \<open>-2^31\<close>, not \<open>2^31\<close>.
\<close>

theorem update_counters_overflow_counterexample:
  "iter (algo_state example_ctx1) = 0
   \<and> ngrad (algo_state example_ctx1) = 0
   \<and> (case run_calls example_collab (replicate 2147483648 (Update 10 11))
              (example_step ([2, 0], 1, 0), example_ctx1) of
         Inl e \<Rightarrow> False
       | Inr (nk', cx') \<Rightarrow>
           sint (iter (algo_state cx')) = - 2147483648
         \<and> sint (ngrad (algo_state cx')) = - 2147483648)"
proof -
  have n: "\<not> useSecantPrecond (example_step ([2, 0], 1, 0))"
    by (simp add: example_step_def)
  have z: "iter (algo_state example_ctx1) = 0" "ngrad (algo_state example_ctx1) = 0"
    by (simp_all add: example_ctx1_def example_ctx_def)
  from run_updates_return [OF n, of example_collab 2147483648 10 11 example_ctx1]
  obtain cx' where r: "run_calls example_collab (replicate 2147483648 (Update 10 11))
      (example_step ([2, 0], 1, 0), example_ctx1) = Inr (example_step ([2, 0], 1, 0), cx')"
    by blast
  note k = replicate_updates [of 2147483648 10 11]
  from run_calls_counters [OF r] k z
  have "iter (algo_state cx') = 2147483648" "ngrad (algo_state cx') = 2147483648"
    by simp_all
  then have "sint (iter (algo_state cx')) = - 2147483648"
    "sint (ngrad (algo_state cx')) = - 2147483648"
    by simp_all
  with r z show ?thesis by simp
qed

text \<open>
  C5, amended. Starting with \<open>iter\<close> and \<open>ngrad\<close> at 0, after any sequence of
  \<open>compute\<close> and \<open>update\<close> calls that return and that has \<open>n < 2^31\<close> calls of
  \<open>update\<close> in it, both counters are \<open>n\<close>.
\<close>

theorem update_counters:
  assumes "run_calls E cs (nk, cx) = Inr (nk', cx')"
    and "list_all (\<lambda>c. \<not> is_Initialize c) cs"
    and "iter (algo_state cx) = 0"
    and "ngrad (algo_state cx) = 0"
    and "length (filter is_Update cs) < 2 ^ 31"
  shows "sint (iter (algo_state cx')) = int (length (filter is_Update cs))
       \<and> sint (ngrad (algo_state cx')) = int (length (filter is_Update cs))"
proof -
  have s: "sint (of_nat n :: 32 word) = int n" if "n < 2 ^ 31" for n :: nat
  proof -
    from that have "int n < 2 ^ 31" by (metis of_nat_less_numeral_power_cancel_iff)
    then show ?thesis by (simp add: signed_of_nat signed_take_bit_int_eq_self)
  qed
  from run_calls_counters [OF assms(1,2)] assms(3,4) s [OF assms(5)]
  show ?thesis by simp
qed

theorem update_counters_witness:
  "\<exists>nk' cx'. run_calls example_collab [Compute 11 10, Update 10 11, Compute 11 10, Update 10 11]
       (example_step ([2, 0], 1, 0), example_ctx) = Inr (nk', cx')
     \<and> list_all (\<lambda>c. \<not> is_Initialize c) [Compute 11 10, Update 10 11, Compute 11 10, Update 10 11]
     \<and> iter (algo_state example_ctx) = 0
     \<and> ngrad (algo_state example_ctx) = 0
     \<and> length (filter is_Update [Compute 11 10, Update 10 11, Compute 11 10, Update 10 11])
         < 2 ^ 31
     \<and> sint (iter (algo_state cx')) = 2 \<and> sint (ngrad (algo_state cx')) = 2"
proof -
  obtain nk' cx' where
    r: "run_calls example_collab [Compute 11 10, Update 10 11, Compute 11 10, Update 10 11]
       (example_step ([2, 0], 1, 0), example_ctx) = Inr (nk', cx')"
    by (simp add: compute_def compute_run_def compute_precond_def update_def bind_def deref_def
        Let_def split_def example_step_def example_collab_def)
  have h0: "list_all (\<lambda>c. \<not> is_Initialize c)
      [Compute 11 10, Update 10 11, Compute 11 10, Update 10 11]"
    by simp
  have h1: "iter (algo_state example_ctx) = 0" and h2: "ngrad (algo_state example_ctx) = 0"
    by (simp_all add: example_ctx_def)
  have h3: "length (filter is_Update [Compute 11 10, Update 10 11, Compute 11 10, Update 10 11])
      < 2 ^ 31"
    by simp
  from update_counters [OF r h0 h1 h2 h3] show ?thesis using r h0 h1 h2 by simp
qed

text \<open>
  C10. A call of \<open>update\<close> that returns has evaluated the objective value (at the point
  that \<open>x\<close> holds afterwards) and stored it in the state; it leaves \<open>nfval\<close> as it was
  and adds one to \<open>ngrad\<close>.
\<close>

theorem update_nfval_unchanged:
  assumes "update E x s (nk, cx) = Inr (nk', cx')"
    and "x \<noteq> gradientVec (state cx)"
  shows "value' (algo_state cx')
           = fst (Objective_value E (obj cx') (store cx' x) (sqrt_ROL_EPSILON E))
       \<and> nfval (algo_state cx') = nfval (algo_state cx)
       \<and> ngrad (algo_state cx') = ngrad (algo_state cx) + 1"
  using assms
  by (auto simp add: update_def bind_def deref_def Let_def split: if_splits option.splits prod.splits)


theorem update_nfval_unchanged_witness:
  "\<exists>nk' cx'. update example_collab 10 11 (example_step ([2, 0], 1, 0), example_ctx1) = Inr (nk', cx')
     \<and> 10 \<noteq> gradientVec (state example_ctx1)
     \<and> value' (algo_state cx') = 0
     \<and> nfval (algo_state cx') = 0
     \<and> ngrad (algo_state cx') = 1"
proof -
  obtain nk' cx' where
    u: "update example_collab 10 11 (example_step ([2, 0], 1, 0), example_ctx1) = Inr (nk', cx')"
    using example_update by blast
  have h1: "10 \<noteq> gradientVec (state example_ctx1)"
    by (simp add: example_ctx1_def example_ctx_def)
  have x: "store cx' 10 = [0, 0]"
    using u by (auto simp add: update_def bind_def deref_def Let_def split_def example_step_def
        example_collab_def example_ctx1_def example_ctx_def)
  have v: "fst (Objective_value example_collab ob [0, 0] t) = 0" for ob t
    by (simp add: example_collab_def)
  have c: "nfval (algo_state example_ctx1) = 0" "ngrad (algo_state example_ctx1) = 0"
    by (simp_all add: example_ctx1_def example_ctx_def)
  from update_nfval_unchanged [OF u h1]
  show ?thesis using u h1
    by (simp add: x v c)
qed

section \<open>Independence of compute from its argument x\<close>

text \<open>
  C9. \<open>compute\<close> does not use its argument \<open>x\<close>: the operators are bound to the iterate
  of the algorithm state. Passing another vector object \<open>x'\<close> with any content \<open>v\<close>
  gives the same outcome, the same step members and the same step \<open>s\<close>, as long as
  \<open>x'\<close> is not one of the objects that \<open>compute\<close> does read (\<open>s\<close>, the iterate and the
  gradient vector).
\<close>

theorem compute_independent_of_x:
  assumes "x' \<noteq> s"
    and "x' \<noteq> iterateVec (algo_state cx)"
    and "x' \<noteq> gradientVec (state cx)"
  shows "map_sum id (\<lambda>(nk', cx'). (nk', store cx' s))
           (compute E s x' (nk, cx\<lparr>store := (store cx)(x' := v)\<rparr>))
       = map_sum id (\<lambda>(nk', cx'). (nk', store cx' s)) (compute E s x (nk, cx))"
  using assms
  by (auto simp add: compute_def compute_run_def compute_hessian_def compute_precond_def
      bind_def deref_def Let_def split: option.splits prod.splits)


theorem compute_independent_of_x_witness:
  "(10::addr) \<noteq> 11
   \<and> 10 \<noteq> iterateVec (algo_state example_ctx)
   \<and> 10 \<noteq> gradientVec (state example_ctx)
   \<and> map_sum id (\<lambda>(nk', cx'). (nk', store cx' 11))
        (compute example_collab 11 10
           (example_step ([2, 0], 1, 0), example_ctx\<lparr>store := (store example_ctx)(10 := [5, 5])\<rparr>))
     = map_sum id (\<lambda>(nk', cx'). (nk', store cx' 11))
        (compute example_collab 11 14 (example_step ([2, 0], 1, 0), example_ctx))"
proof -
  have h1: "(10::addr) \<noteq> 11" by simp
  have h2: "10 \<noteq> iterateVec (algo_state example_ctx)"
    and h3: "10 \<noteq> gradientVec (state example_ctx)"
    by (simp_all add: example_ctx_def)
  from compute_independent_of_x [OF h1 h2 h3] h1 h2 h3 show ?thesis by simp
qed

section \<open>The secant object\<close>

text \<open>
  While secant preconditioning is off, a call that returns leaves the secant object and the
  workspace \<open>gp_\<close> as they were, and returns the same whatever \<open>updateStorage\<close> does.
\<close>

lemma initialize_gating:
  assumes "initialize E x s g (nk, cx) = Inr (nk', cx')" and "\<not> useSecantPrecond nk"
  shows "nk' = nk \<and> initialize (E\<lparr>Secant_updateStorage := U\<rparr>) x s g (nk, cx) = Inr (nk', cx')"
  using assms by (auto simp add: initialize_def bind_def split: sum.splits)

lemma compute_gating:
  assumes "compute E s x (nk, cx) = Inr (nk', cx')"
  shows "secant nk' = secant nk \<and> gp nk' = gp nk \<and> useSecantPrecond nk' = useSecantPrecond nk
       \<and> compute (E\<lparr>Secant_updateStorage := U\<rparr>) s x (nk, cx) = Inr (nk', cx')"
  using assms
  by (auto simp add: compute_def compute_run_def bind_def Let_def split: sum.splits prod.splits if_splits)

lemma update_gating:
  assumes "update E x s (nk, cx) = Inr (nk', cx')" and "\<not> useSecantPrecond nk"
  shows "nk' = nk \<and> update (E\<lparr>Secant_updateStorage := U\<rparr>) x s (nk, cx) = Inr (nk', cx')"
  using assms
  by (auto simp add: update_def bind_def Let_def split_def)

lemma do_call_gating:
  assumes "do_call E c (nk, cx) = Inr (nk', cx')" and "\<not> useSecantPrecond nk"
  shows "secant nk' = secant nk \<and> gp nk' = gp nk \<and> \<not> useSecantPrecond nk'
       \<and> do_call (E\<lparr>Secant_updateStorage := U\<rparr>) c (nk, cx) = Inr (nk', cx')"
proof (cases c)
  case (Initialize x s g)
  with assms initialize_gating [of E x s g nk cx nk' cx' U] show ?thesis by simp
next
  case (Compute s x)
  with assms compute_gating [of E s x nk cx nk' cx' U] show ?thesis by simp
next
  case (Update x s)
  with assms update_gating [of E x s nk cx nk' cx' U] show ?thesis by simp
qed

lemma run_calls_gating:
  "run_calls E cs (nk, cx) = Inr (nk', cx') \<Longrightarrow> \<not> useSecantPrecond nk \<Longrightarrow>
   secant nk' = secant nk \<and> gp nk' = gp nk \<and> \<not> useSecantPrecond nk'
   \<and> run_calls (E\<lparr>Secant_updateStorage := U\<rparr>) cs (nk, cx) = Inr (nk', cx')"
proof (induction cs arbitrary: nk cx)
  case Nil
  then show ?case by simp
next
  case (Cons c cs)
  from Cons.prems(1) obtain nk1 cx1 where
    1: "do_call E c (nk, cx) = Inr (nk1, cx1)" and
    2: "run_calls E cs (nk1, cx1) = Inr (nk', cx')"
    by (auto simp add: bind_def split: sum.splits)
  note d = do_call_gating [OF 1 Cons.prems(2), of U]
  from d have 3: "\<not> useSecantPrecond nk1" by simp
  from Cons.IH [OF 2 3] d show ?case by (simp add: bind_def)
qed

lemma parlist_gating:
  assumes "NewtonKrylovStep_parlist E parlist = Inr nk"
    and "get_or False (Secant_Use_as_Preconditioner parlist) = False"
  shows "secant nk = None \<and> gp nk = None \<and> \<not> useSecantPrecond nk
       \<and> NewtonKrylovStep_parlist (E\<lparr>SecantFactory := F\<rparr>) parlist = Inr nk"
  using assms
  by (auto simp add: NewtonKrylovStep_parlist_def bind_def Let_def split: sum.splits)

lemma user_gating:
  assumes "NewtonKrylovStep_user E parlist krylov0 secant0 = Inr nk"
    and "get_or False (Secant_Use_as_Preconditioner parlist) = False"
  shows "secant nk = secant0 \<and> gp nk = None \<and> \<not> useSecantPrecond nk
       \<and> NewtonKrylovStep_user (E\<lparr>SecantFactory := F\<rparr>) parlist krylov0 secant0 = Inr nk"
  using assms
  by (auto simp add: NewtonKrylovStep_user_def bind_def Let_def split: sum.splits if_splits)

text \<open>
  C6. With the option \<open>Use as Preconditioner\<close> false (or absent), for a step \<open>nk\<close> built
  by either constructor: the constructor builds the same step whatever \<open>SecantFactory\<close>
  does (it is not called), so \<open>secant_\<close> is null after the standard constructor and is
  the user's object, null or not, after the other one; and after any sequence of
  \<open>initialize\<close>, \<open>compute\<close> and \<open>update\<close> calls that return, \<open>gp_\<close> is still null,
  \<open>secant_\<close> is what the constructor left, and the run is the same whatever
  \<open>updateStorage\<close> does (it is not called).
\<close>

theorem secant_gating:
  assumes "get_or False (Secant_Use_as_Preconditioner parlist) = False"
    and "NewtonKrylovStep_parlist E parlist = Inr nk
       \<or> NewtonKrylovStep_user E parlist krylov0 secant0 = Inr nk"
    and "run_calls E cs (nk, cx) = Inr (nk', cx')"
  shows "(NewtonKrylovStep_parlist E parlist = Inr nk \<longrightarrow>
            secant nk = None
          \<and> NewtonKrylovStep_parlist (E\<lparr>SecantFactory := F\<rparr>) parlist = Inr nk)
       \<and> (NewtonKrylovStep_user E parlist krylov0 secant0 = Inr nk \<longrightarrow>
            secant nk = secant0
          \<and> NewtonKrylovStep_user (E\<lparr>SecantFactory := F\<rparr>) parlist krylov0 secant0 = Inr nk)
       \<and> secant nk' = secant nk
       \<and> gp nk' = None
       \<and> run_calls (E\<lparr>Secant_updateStorage := U\<rparr>) cs (nk, cx) = Inr (nk', cx')
       \<and> NewtonKrylovStep_user (E\<lparr>SecantFactory := F\<rparr>) parlist krylov0 secant0
           = NewtonKrylovStep_user E parlist krylov0 secant0"
proof -
  have p: "secant nk = None
       \<and> NewtonKrylovStep_parlist (E\<lparr>SecantFactory := F\<rparr>) parlist = Inr nk"
    if "NewtonKrylovStep_parlist E parlist = Inr nk"
    using parlist_gating [OF that assms(1), of F] by simp
  have u: "secant nk = secant0
       \<and> NewtonKrylovStep_user (E\<lparr>SecantFactory := F\<rparr>) parlist krylov0 secant0 = Inr nk"
    if "NewtonKrylovStep_user E parlist krylov0 secant0 = Inr nk"
    using user_gating [OF that assms(1), of F] by simp
  from assms(2) have off: "\<not> useSecantPrecond nk \<and> gp nk = None"
  proof
    assume "NewtonKrylovStep_parlist E parlist = Inr nk"
    from parlist_gating [OF this assms(1)] show ?thesis by simp
  next
    assume "NewtonKrylovStep_user E parlist krylov0 secant0 = Inr nk"
    from user_gating [OF this assms(1)] show ?thesis by simp
  qed
  then have n: "\<not> useSecantPrecond nk" by simp
  have f: "NewtonKrylovStep_user (E\<lparr>SecantFactory := F\<rparr>) parlist krylov0 secant0
           = NewtonKrylovStep_user E parlist krylov0 secant0"
    using assms(1) by (simp add: NewtonKrylovStep_user_def)
  from run_calls_gating [OF assms(3) n, of U] off p u f show ?thesis by simp
qed

text \<open>
  The witness takes a step built with the user's secant object 7 and the option absent,
  the case in which the option and the null test of \<open>secant_\<close> differ, and then a step
  built by the standard constructor.
\<close>

theorem secant_gating_witness:
  "(\<exists>nk nk' cx'.
     get_or False (Secant_Use_as_Preconditioner example_parlist) = False
   \<and> NewtonKrylovStep_user example_collab example_parlist (Some ([2, 0], 1, 0)) (Some 7) = Inr nk
   \<and> run_calls example_collab [Initialize 10 11 13, Compute 11 10, Update 10 11]
         (nk, example_ctx) = Inr (nk', cx')
   \<and> secant nk = Some 7
   \<and> NewtonKrylovStep_user
         (example_collab\<lparr>SecantFactory := (\<lambda>pl. Inl InvalidConfiguration)\<rparr>) example_parlist
         (Some ([2, 0], 1, 0)) (Some 7)
       = Inr nk
   \<and> secant nk' = Some 7
   \<and> gp nk' = None
   \<and> run_calls (example_collab\<lparr>Secant_updateStorage := (\<lambda>x g gp s sn it n. n + 2)\<rparr>)
         [Initialize 10 11 13, Compute 11 10, Update 10 11] (nk, example_ctx) = Inr (nk', cx'))
 \<and> (\<exists>nk nk' cx'.
     NewtonKrylovStep_parlist example_collab example_parlist = Inr nk
   \<and> run_calls example_collab [Initialize 10 11 13, Compute 11 10, Update 10 11]
         (nk, example_ctx) = Inr (nk', cx')
   \<and> secant nk = None
   \<and> NewtonKrylovStep_parlist
         (example_collab\<lparr>SecantFactory := (\<lambda>pl. Inl InvalidConfiguration)\<rparr>) example_parlist
       = Inr nk
   \<and> secant nk' = None
   \<and> gp nk' = None
   \<and> run_calls (example_collab\<lparr>Secant_updateStorage := (\<lambda>x g gp s sn it n. n + 2)\<rparr>)
         [Initialize 10 11 13, Compute 11 10, Update 10 11] (nk, example_ctx) = Inr (nk', cx'))"
proof (rule conjI)
  have h1: "get_or False (Secant_Use_as_Preconditioner example_parlist) = False"
    by (simp add: get_or_def example_parlist_def)
  obtain nk where h2:
    "NewtonKrylovStep_user example_collab example_parlist (Some ([2, 0], 1, 0)) (Some 7) = Inr nk"
    by (simp add: NewtonKrylovStep_user_def bind_def Let_def get_or_def example_parlist_def
        example_collab_def)
  from h2 have nk: "krylov nk = Some ([2, 0], 1, 0)" "\<not> useSecantPrecond nk"
    by (auto simp add: NewtonKrylovStep_user_def bind_def Let_def get_or_def
        example_parlist_def example_collab_def)
  obtain nk' cx' where h3:
    "run_calls example_collab [Initialize 10 11 13, Compute 11 10, Update 10 11]
       (nk, example_ctx) = Inr (nk', cx')"
    using nk
    by (simp add: initialize_def compute_def compute_run_def compute_precond_def update_def
        bind_def deref_def Let_def split_def example_collab_def)
  from secant_gating [OF h1 disjI2 h3, OF h2,
      of "\<lambda>pl. Inl InvalidConfiguration" "\<lambda>x g gp s sn it n. n + 2"] h1 h2 h3
  show "\<exists>nk nk' cx'.
     get_or False (Secant_Use_as_Preconditioner example_parlist) = False
   \<and> NewtonKrylovStep_user example_collab example_parlist (Some ([2, 0], 1, 0)) (Some 7) = Inr nk
   \<and> run_calls example_collab [Initialize 10 11 13, Compute 11 10, Update 10 11]
         (nk, example_ctx) = Inr (nk', cx')
   \<and> secant nk = Some 7
   \<and> NewtonKrylovStep_user
         (example_collab\<lparr>SecantFactory := (\<lambda>pl. Inl InvalidConfiguration)\<rparr>) example_parlist
         (Some ([2, 0], 1, 0)) (Some 7)
       = Inr nk
   \<and> secant nk' = Some 7
   \<and> gp nk' = None
   \<and> run_calls (example_collab\<lparr>Secant_updateStorage := (\<lambda>x g gp s sn it n. n + 2)\<rparr>)
         [Initialize 10 11 13, Compute 11 10, Update 10 11] (nk, example_ctx) = Inr (nk', cx')"
    by (intro exI [of _ nk] exI [of _ nk'] exI [of _ cx']) simp
next
  have h1: "get_or False (Secant_Use_as_Preconditioner example_parlist) = False"
    by (simp add: get_or_def example_parlist_def)
  obtain nk where h2: "NewtonKrylovStep_parlist example_collab example_parlist = Inr nk"
    by (simp add: NewtonKrylovStep_parlist_def bind_def Let_def get_or_def example_parlist_def
        example_collab_def)
  from h2 have nk: "krylov nk = Some ([2, 0], 1, 0)" "\<not> useSecantPrecond nk"
    by (auto simp add: NewtonKrylovStep_parlist_def bind_def Let_def get_or_def
        example_parlist_def example_collab_def)
  obtain nk' cx' where h3:
    "run_calls example_collab [Initialize 10 11 13, Compute 11 10, Update 10 11]
       (nk, example_ctx) = Inr (nk', cx')"
    using nk
    by (simp add: initialize_def compute_def compute_run_def compute_precond_def update_def
        bind_def deref_def Let_def split_def example_collab_def)
  from secant_gating [OF h1 disjI1 h3, OF h2,
      of "\<lambda>pl. Inl InvalidConfiguration" None None "\<lambda>x g gp s sn it n. n + 2"] h1 h2 h3
  show "\<exists>nk nk' cx'.
     NewtonKrylovStep_parlist example_collab example_parlist = Inr nk
   \<and> run_calls example_collab [Initialize 10 11 13, Compute 11 10, Update 10 11]
         (nk, example_ctx) = Inr (nk', cx')
   \<and> secant nk = None
   \<and> NewtonKrylovStep_parlist
         (example_collab\<lparr>SecantFactory := (\<lambda>pl. Inl InvalidConfiguration)\<rparr>) example_parlist
       = Inr nk
   \<and> secant nk' = None
   \<and> gp nk' = None
   \<and> run_calls (example_collab\<lparr>Secant_updateStorage := (\<lambda>x g gp s sn it n. n + 2)\<rparr>)
         [Initialize 10 11 13, Compute 11 10, Update 10 11] (nk, example_ctx) = Inr (nk', cx')"
    by (intro exI [of _ nk] exI [of _ nk'] exI [of _ cx']) simp
qed

section \<open>User-defined Krylov and secant objects\<close>







section \<open>Status output\<close>

text \<open>A field written with \<open>std::setw\<close> is part of every text it is written into.\<close>

lemma sublist_left: "sublist xs ys \<Longrightarrow> sublist xs (ys @ zs)"
  by (meson sublist_append)

lemma sublist_right: "sublist xs zs \<Longrightarrow> sublist xs (ys @ zs)"
  by (meson sublist_append)

lemma sublist_Cons: "sublist xs ys \<Longrightarrow> sublist xs (y # ys)"
  by (simp add: sublist_Cons_right)

lemma sublist_setw_left: "sublist str (setw_left n str)"
  by (simp add: setw_left_def)

lemma sublist_setw_left_app: "sublist str (setw_left n str @ zs)"
  by (rule sublist_left [OF sublist_setw_left])

text \<open>
  C8, as the claim states it, fails for a state with \<open>iter == 0\<close>: the line then ends
  after the gradient norm, and the function-evaluation count 7 of this state is nowhere in
  the text.
\<close>

theorem print_first_line_counterexample:
  "print example_collab (example_step ([2, 0], 1, 0))
     \<lparr>iter = 0, value' = 2, gnorm = 2, snorm = 0, nfval = 7, ngrad = 7, iterateVec = 12\<rparr> False
   = ''\<newline>Newton-Krylov using User Defined\<newline>  0     2.000000e+00   2.000000e+00   \<newline>''
   \<and> \<not> sublist (show_int 7) (print example_collab (example_step ([2, 0], 1, 0))
     \<lparr>iter = 0, value' = 2, gnorm = 2, snorm = 0, nfval = 7, ngrad = 7, iterateVec = 12\<rparr> False)"
  by (simp add: print_def printName_def setw_left_def show_int_def example_collab_def
      example_step_def digits.simps sublist_Cons_right eval_nat_numeral)

text \<open>
  C8, amended. For every algorithm state the text of \<open>print\<close> contains the iteration
  count, the objective value and the gradient norm; when \<open>iter\<close> is not 0 it also contains
  the step norm, the two evaluation counts, the Krylov iteration count and the Krylov
  flag.
\<close>

theorem print_fields:
  "sublist (show_int (sint (iter algo))) (print E nk algo print_header)
   \<and> sublist (scientific E (value' algo)) (print E nk algo print_header)
   \<and> sublist (scientific E (gnorm algo)) (print E nk algo print_header)
   \<and> (iter algo \<noteq> 0 \<longrightarrow>
        sublist (scientific E (snorm algo)) (print E nk algo print_header)
      \<and> sublist (show_int (sint (nfval algo))) (print E nk algo print_header)
      \<and> sublist (show_int (sint (ngrad algo))) (print E nk algo print_header)
      \<and> sublist (show_int (iterKrylov nk)) (print E nk algo print_header)
      \<and> sublist (show_int (flagKrylov nk)) (print E nk algo print_header))"
  unfolding print_def
  by (simp, intro conjI impI)
    ((rule sublist_setw_left_app | rule sublist_right | rule sublist_Cons)+)

theorem print_fields_witness:
  "iter \<lparr>iter = 1, value' = 0, gnorm = 0, snorm = 2, nfval = 3, ngrad = 4, iterateVec = 12\<rparr> \<noteq> 0
   \<and> print example_collab (example_step ([2, 0], 5, 6))
        \<lparr>iter = 1, value' = 0, gnorm = 0, snorm = 2, nfval = 3, ngrad = 4, iterateVec = 12\<rparr> False
     = ''  1     0.000000e+00   0.000000e+00   2.000000e+00   3         4         0         0         \<newline>''
   \<and> sublist ''2.000000e+00'' (print example_collab (example_step ([2, 0], 5, 6))
        \<lparr>iter = 1, value' = 0, gnorm = 0, snorm = 2, nfval = 3, ngrad = 4, iterateVec = 12\<rparr> False)
   \<and> sublist ''3'' (print example_collab (example_step ([2, 0], 5, 6))
        \<lparr>iter = 1, value' = 0, gnorm = 0, snorm = 2, nfval = 3, ngrad = 4, iterateVec = 12\<rparr> False)
   \<and> sublist ''4'' (print example_collab (example_step ([2, 0], 5, 6))
        \<lparr>iter = 1, value' = 0, gnorm = 0, snorm = 2, nfval = 3, ngrad = 4, iterateVec = 12\<rparr> False)"
proof -
  have p: "print example_collab (example_step ([2, 0], 5, 6))
        \<lparr>iter = 1, value' = 0, gnorm = 0, snorm = 2, nfval = 3, ngrad = 4, iterateVec = 12\<rparr> False
     = ''  1     0.000000e+00   0.000000e+00   2.000000e+00   3         4         0         0         \<newline>''"
    by (simp add: print_def setw_left_def show_int_def digits.simps example_collab_def
        example_step_def eval_nat_numeral)
  have f: "scientific example_collab 2 = ''2.000000e+00''"
    "show_int 3 = ''3''" "show_int 4 = ''4''"
    by (simp_all add: example_collab_def show_int_def digits.simps)
  from print_fields [of "\<lparr>iter = 1, value' = 0, gnorm = 0, snorm = 2, nfval = 3, ngrad = 4,
      iterateVec = 12\<rparr>" example_collab "example_step ([2, 0], 5, 6)" False]
  show ?thesis unfolding p by (simp add: f)
qed

end
